theory Spec2Isabelle
  imports Main "HOL-Library.AList"
begin

section \<open>Exceptions\<close>

text \<open>
  Python exceptions raised by user code and by the library calls. The source catches
  with \<^verbatim>\<open>except Exception\<close>, which lets interrupts (instances of BaseException that
  are not instances of Exception, such as KeyboardInterrupt and SystemExit) pass, so
  the two classes are kept apart.
\<close>

datatype exn = Exception string | BaseException string

fun is_Exception :: "exn \<Rightarrow> bool" where
  "is_Exception (Exception _) = True"
| "is_Exception (BaseException _) = False"

definition KeyboardInterrupt :: exn where
  "KeyboardInterrupt = BaseException ''KeyboardInterrupt''"

definition UnboundLocalError :: exn where
  "UnboundLocalError = Exception ''UnboundLocalError''"

section \<open>Tasks and resources\<close>

text \<open>
  The module \<^verbatim>\<open>karton/core/task.py\<close> and \<^verbatim>\<open>karton/core/resource.py\<close> are imported by
  \<^verbatim>\<open>karton.py\<close> but are not part of the sources at hand; the data model below follows
  section 3 of the specification.
\<close>

datatype TaskState = STARTED | FINISHED

datatype TaskPriority = HIGH | NORMAL | LOW

text \<open>Modelled from the spec: Resource, missing from the sources. A Local resource
  owns its bytes and has an optional target bucket; a Remote one is referenced by
  bucket and key.\<close>

datatype resource =
    LocalResource string string "string option"
  | RemoteResource string string string

datatype pvalue = Plain string | Res resource

type_synonym bind = "(string \<times> string) list"

text \<open>Modelled from the spec: Task, missing from the sources. Dictionaries are
  association lists in insertion order.\<close>

record task =
  uid :: string
  headers :: "(string \<times> string) list"
  payload :: "(string \<times> pvalue) list"
  payload_persistent :: "(string \<times> pvalue) list"
  priority :: TaskPriority
  parent_uid :: "string option"
  last_update :: int
  asynchronic :: bool

text \<open>Modelled from the spec: Task.set\_task\_parent, missing from the sources:
  "stamp the new task's parent reference to that current task".\<close>

definition set_task_parent :: "task \<Rightarrow> task \<Rightarrow> task" where
  "set_task_parent t parent = t\<lparr>parent_uid := Some (uid parent)\<rparr>"

text \<open>Modelled from the spec: Task.merge\_persistent\_payload, missing from the
  sources: "merge the current task's persistent-payload fields into the new task's
  payload (new task's own fields win on conflict)".\<close>

definition merge_persistent_payload :: "task \<Rightarrow> task \<Rightarrow> task" where
  "merge_persistent_payload t other =
     t\<lparr>payload := payload t @
          filter (\<lambda>(name, content). map_of (payload t) name = None) (payload_persistent other)\<rparr>"

text \<open>Modelled from the spec: Task.is\_asynchronic, missing from the sources: the
  task's asynchronous flag.\<close>

definition is_asynchronic :: "task \<Rightarrow> bool" where
  "is_asynchronic t = asynchronic t"

text \<open>Modelled from the spec: Task.iterate\_resources, missing from the sources:
  the resources among the values of the task's payload, with their names.\<close>

fun iterate_resources_of :: "(string \<times> pvalue) list \<Rightarrow> (string \<times> resource) list" where
  "iterate_resources_of [] = []"
| "iterate_resources_of ((name, Res r) # rest) = (name, r) # iterate_resources_of rest"
| "iterate_resources_of ((name, Plain v) # rest) = iterate_resources_of rest"

definition iterate_resources :: "task \<Rightarrow> (string \<times> resource) list" where
  "iterate_resources t = iterate_resources_of (payload t)"

text \<open>
  What the remaining methods of Task compute is not visible from \<^verbatim>\<open>karton.py\<close>;
  they are parameters of the model: the serialisation pair, the bind matcher and the
  text that \<^verbatim>\<open>str.format\<close> prints for a TaskPriority constant.
\<close>

record task_api =
  serialize :: "task \<Rightarrow> string"
  unserialize :: "string option \<Rightarrow> exn + task"
  matches_bind :: "task \<Rightarrow> bind \<Rightarrow> bool"
  format_priority :: "TaskPriority \<Rightarrow> string"

section \<open>The broker, the object store and the log\<close>

definition TASKS_QUEUE :: string where
  "TASKS_QUEUE = ''karton.tasks''"

definition TASK_PREFIX :: string where
  "TASK_PREFIX = ''karton.task:''"

definition METRICS_PRODUCED :: string where
  "METRICS_PRODUCED = ''karton.metrics.produced''"

definition METRICS_CONSUMED :: string where
  "METRICS_CONSUMED = ''karton.metrics.consumed''"

definition METRICS_ERRORED :: string where
  "METRICS_ERRORED = ''karton.metrics.errored''"

datatype loglevel = DEBUG | INFO | EXCEPTION

datatype logarg = ArgStr string | ArgBind bind

text \<open>
  Every effect that leaves the process, and every call of a hook or of the handler,
  is appended to a trace, so that the order of effects can be stated.
\<close>

datatype event =
    Log loglevel string "logarg list"
  | RsSet string string
  | RsRPush string string
  | RsHSet string string string
  | RsHIncrBy string string int
  | RsClientSetName string
  | Upload resource
  | DeclareTaskState "task option" TaskState string
  | CallPreHook "string option" task
  | CallProcess "task list"
  | CallPostHook "string option" task "exn option"

text \<open>
  The mutable state: the attributes of the service object that the code assigns, the
  contents of the broker (\<^verbatim>\<open>self.rs\<close>) and of the object store (\<^verbatim>\<open>self.minio\<close>), and
  the trace. A GET on the broker answers with the stored value, with nil, or fails
  (connection lost, key of the wrong type): \<open>rs_kv\<close> holds that answer per key.
\<close>

record state =
  current_task :: "task option"
  log_task :: "task option"
  shutdown :: bool
  rs_kv :: "string \<Rightarrow> exn + string option"
  rs_lists :: "string \<Rightarrow> string list"
  rs_hashes :: "string \<Rightarrow> string \<Rightarrow> string option"
  rs_counters :: "string \<Rightarrow> string \<Rightarrow> int"
  minio :: "resource list"
  trace :: "event list"

definition emit :: "event \<Rightarrow> state \<Rightarrow> state" where
  "emit ev s = s\<lparr>trace := trace s @ [ev]\<rparr>"

definition log :: "loglevel \<Rightarrow> string \<Rightarrow> logarg list \<Rightarrow> state \<Rightarrow> state" where
  "log level msg args s = emit (Log level msg args) s"

definition set_task :: "task option \<Rightarrow> state \<Rightarrow> state" where
  "set_task t s = s\<lparr>log_task := t\<rparr>"

definition rs_set :: "string \<Rightarrow> string \<Rightarrow> state \<Rightarrow> state" where
  "rs_set k v s = emit (RsSet k v) (s\<lparr>rs_kv := (rs_kv s)(k := Inr (Some v))\<rparr>)"

definition rs_get :: "string \<Rightarrow> state \<Rightarrow> exn + string option" where
  "rs_get k s = rs_kv s k"

definition rs_rpush :: "string \<Rightarrow> string \<Rightarrow> state \<Rightarrow> state" where
  "rs_rpush k v s = emit (RsRPush k v) (s\<lparr>rs_lists := (rs_lists s)(k := rs_lists s k @ [v])\<rparr>)"

definition rs_hincrby :: "string \<Rightarrow> string \<Rightarrow> int \<Rightarrow> state \<Rightarrow> state" where
  "rs_hincrby h f n s =
     emit (RsHIncrBy h f n)
       (s\<lparr>rs_counters := (rs_counters s)(h := (rs_counters s h)(f := rs_counters s h f + n))\<rparr>)"

definition rs_hget :: "string \<Rightarrow> string \<Rightarrow> state \<Rightarrow> string option" where
  "rs_hget h f s = rs_hashes s h f"

definition rs_hset :: "string \<Rightarrow> string \<Rightarrow> string \<Rightarrow> state \<Rightarrow> state" where
  "rs_hset h f v s =
     emit (RsHSet h f v) (s\<lparr>rs_hashes := (rs_hashes s)(h := (rs_hashes s h)(f := Some v))\<rparr>)"

text \<open>
  BLPOP of the broker: the keys are checked in the order given and the head of the
  first non-empty list is popped; with every list empty the call times out and
  answers nil.
\<close>

fun blpop_from :: "(string \<Rightarrow> string list) \<Rightarrow> string list
    \<Rightarrow> (string \<times> string \<times> (string \<Rightarrow> string list)) option" where
  "blpop_from ls [] = None"
| "blpop_from ls (k # ks) =
     (case ls k of
        [] \<Rightarrow> blpop_from ls ks
      | x # xs \<Rightarrow> Some (k, x, ls(k := xs)))"

definition rs_blpop :: "string list \<Rightarrow> state \<Rightarrow> (string \<times> string) option \<times> state" where
  "rs_blpop keys s =
     (case blpop_from (rs_lists s) keys of
        None \<Rightarrow> (None, s)
      | Some (k, x, ls') \<Rightarrow> (Some (k, x), s\<lparr>rs_lists := ls'\<rparr>))"

text \<open>Modelled from the spec: LocalResource.upload, missing from the sources: the
  resource is stored in the object store.\<close>

definition upload :: "resource \<Rightarrow> state \<Rightarrow> state" where
  "upload r s = emit (Upload r) (s\<lparr>minio := minio s @ [r]\<rparr>)"

text \<open>Modelled from the spec: KartonBase.declare\_task\_state, missing from the
  sources: a lifecycle marker "reported to the broker keyed by task id and reporting
  identity", "an event emitted alongside" the task.\<close>

definition declare_task_state :: "task option \<Rightarrow> TaskState \<Rightarrow> string \<Rightarrow> state \<Rightarrow> state" where
  "declare_task_state t status ident s = emit (DeclareTaskState t status ident) s"

section \<open>The service object\<close>

text \<open>
  The attributes of a Producer or Consumer that the code only reads: its identity,
  the configured bucket, the declared binds, the registered hooks, the handler with
  the number of arguments it takes, and the registration string. A hook or handler
  is given the current task, may change that task object, and returns or raises.
\<close>

type_synonym callback = "task \<Rightarrow> exn option \<times> task"

type_synonym post_callback = "task \<Rightarrow> exn option \<Rightarrow> exn option \<times> task"

record karton =
  identity :: string
  minio_bucket :: string
  filters :: "bind list"
  pre_hooks :: "(string option \<times> callback) list"
  post_hooks :: "(string option \<times> post_callback) list"
  process :: callback
  process_arg_num :: nat
  registration :: string

section \<open>Producer\<close>

text \<open>Python's truth value of an optional string: None and the empty string are false.\<close>

fun truthy :: "string option \<Rightarrow> bool" where
  "truthy None = False"
| "truthy (Some v) = (v \<noteq> [])"

fun ensure_bucket :: "string \<Rightarrow> pvalue \<Rightarrow> pvalue" where
  "ensure_bucket b (Res (LocalResource name content bucket)) =
     (if \<not> truthy bucket then Res (LocalResource name content (Some b))
      else Res (LocalResource name content bucket))"
| "ensure_bucket b v = v"

fun is_local :: "resource \<Rightarrow> bool" where
  "is_local (LocalResource _ _ _) = True"
| "is_local (RemoteResource _ _ _) = False"

fun upload_all :: "resource list \<Rightarrow> state \<Rightarrow> state" where
  "upload_all [] s = s"
| "upload_all (r # rs) s = upload_all rs (if is_local r then upload r s else s)"

text \<open>The task as \<^verbatim>\<open>send_task\<close> has completed it by the time it is serialised
  (lines 70 to 82); \<open>now\<close> is the reading of the clock.\<close>

definition complete_task :: "karton \<Rightarrow> int \<Rightarrow> task option \<Rightarrow> task \<Rightarrow> task" where
  "complete_task K now cur task =
     (let t1 = (case cur of
                  None \<Rightarrow> task
                | Some c \<Rightarrow> (merge_persistent_payload (set_task_parent task c) c)\<lparr>priority := priority c\<rparr>);
          t2 = t1\<lparr>last_update := now,
                  headers := AList.update ''origin'' (identity K) (headers t1)\<rparr>
      in t2\<lparr>payload := map (\<lambda>(name, v). (name, ensure_bucket (minio_bucket K) v)) (payload t2)\<rparr>)"

definition send_task :: "karton \<Rightarrow> task_api \<Rightarrow> int \<Rightarrow> task \<Rightarrow> state \<Rightarrow> bool \<times> task \<times> state" where
  "send_task K A now task s =
     (let s1 = log DEBUG ''Dispatched task %s'' [ArgStr (uid task)] s;
          t = complete_task K now (current_task s1) task;
          task_json = serialize A t;
          s2 = rs_set (TASK_PREFIX @ uid t) task_json s1;
          s3 = upload_all (map snd (iterate_resources t)) s2;
          s4 = rs_rpush TASKS_QUEUE (uid t) s3;
          s5 = rs_hincrby METRICS_PRODUCED (identity K) 1 s4
      in (True, t, s5))"

text \<open>
  \<^verbatim>\<open>with producer.continue_asynchronic(task, finish): body\<close>. The function is a
  generator under \<^verbatim>\<open>contextlib.contextmanager\<close>: the lines before \<^verbatim>\<open>yield\<close> run on
  entry; when the body returns, the generator is resumed and the lines after
  \<^verbatim>\<open>yield\<close> run; when the body raises, the exception is thrown into the generator
  at \<^verbatim>\<open>yield\<close>, which stands in no \<^verbatim>\<open>try\<close>, so the generator ends there and the
  exception goes on to the caller.
\<close>

definition continue_asynchronic ::
    "karton \<Rightarrow> task \<Rightarrow> bool \<Rightarrow> (state \<Rightarrow> exn option \<times> state) \<Rightarrow> state \<Rightarrow> exn option \<times> state" where
  "continue_asynchronic K task finish body s =
     (let old_current_task = current_task s;
          s1 = set_task (Some task) (s\<lparr>current_task := Some task\<rparr>)
      in case body s1 of
           (Some e, s2) \<Rightarrow> (Some e, s2)
         | (None, s2) \<Rightarrow>
             (let s3 = (if finish
                        then declare_task_state (current_task s2) FINISHED (identity K) s2
                        else s2);
                  s4 = s3\<lparr>current_task := old_current_task\<rparr>
              in (None, set_task (current_task s4) s4)))"

section \<open>Consumer\<close>

text \<open>The \<^verbatim>\<open>except\<close> clauses of the two hook loops: the message names the hook when
  its name is neither None nor empty.\<close>

fun pre_hook_failed :: "string option \<Rightarrow> state \<Rightarrow> state" where
  "pre_hook_failed None s = log EXCEPTION ''Pre-hook failed'' [] s"
| "pre_hook_failed (Some name) s =
     (if name \<noteq> [] then log EXCEPTION ''Pre-hook (%s) failed'' [ArgStr name] s
      else log EXCEPTION ''Pre-hook failed'' [] s)"

fun post_hook_failed :: "string option \<Rightarrow> state \<Rightarrow> state" where
  "post_hook_failed None s = log EXCEPTION ''Post-hook failed'' [] s"
| "post_hook_failed (Some name) s =
     (if name \<noteq> [] then log EXCEPTION ''Post-hook (%s) failed'' [ArgStr name] s
      else log EXCEPTION ''Post-hook failed'' [] s)"

text \<open>
  \<^verbatim>\<open>_run_pre_hooks\<close>: every hook is called with the current task inside its own
  \<^verbatim>\<open>try\<close>; an Exception is logged and the loop goes on; anything else leaves the
  loop. The task is threaded through the calls, as the hooks share the one task
  object held in \<^verbatim>\<open>self.current_task\<close>.
\<close>

fun run_pre_hooks :: "(string option \<times> callback) list \<Rightarrow> task \<Rightarrow> state
    \<Rightarrow> exn option \<times> task \<times> state" where
  "run_pre_hooks [] t s = (None, t, s)"
| "run_pre_hooks ((name, callback) # hooks) t s =
     (let s1 = emit (CallPreHook name t) s in
      case callback t of
        (None, t1) \<Rightarrow> run_pre_hooks hooks t1 s1
      | (Some e, t1) \<Rightarrow>
          if is_Exception e
          then run_pre_hooks hooks t1
                 (pre_hook_failed name s1)
          else (Some e, t1, s1))"

fun run_post_hooks :: "(string option \<times> post_callback) list \<Rightarrow> exn option \<Rightarrow> task \<Rightarrow> state
    \<Rightarrow> exn option \<times> task \<times> state" where
  "run_post_hooks [] exception t s = (None, t, s)"
| "run_post_hooks ((name, callback) # hooks) exception t s =
     (let s1 = emit (CallPostHook name t exception) s in
      case callback t exception of
        (None, t1) \<Rightarrow> run_post_hooks hooks exception t1 s1
      | (Some e, t1) \<Rightarrow>
          if is_Exception e
          then run_post_hooks hooks exception t1
                 (post_hook_failed name s1)
          else (Some e, t1, s1))"

text \<open>
  Lines 189 to 199, the inner \<^verbatim>\<open>try\<close>: the handler is called without arguments or
  with the task, by the number of arguments it declares. \<^verbatim>\<open>saved_exception\<close> is
  bound when the handler returns and when it raises an Exception; the \<^verbatim>\<open>finally\<close>
  clause then runs the post-hooks and the handler's exception goes on afterwards,
  unless a post-hook lets an exception of its own escape, which then replaces it.
  When the handler raises anything else, \<^verbatim>\<open>saved_exception\<close> is unbound in the
  \<^verbatim>\<open>finally\<close> clause and reading it raises UnboundLocalError in place of the call.
\<close>

definition process_args :: "karton \<Rightarrow> task \<Rightarrow> task list" where
  "process_args K t = (if process_arg_num K = 0 then [] else [t])"

definition run_process :: "karton \<Rightarrow> task \<Rightarrow> state \<Rightarrow> exn option \<times> task \<times> state" where
  "run_process K t s =
     (let s1 = emit (CallProcess (process_args K t)) s in
      case process K t of
        (None, t1) \<Rightarrow> run_post_hooks (post_hooks K) None t1 s1
      | (Some e, t1) \<Rightarrow>
          if is_Exception e
          then (case run_post_hooks (post_hooks K) (Some e) t1 s1 of
                  (None, t2, s2) \<Rightarrow> (Some e, t2, s2)
                | (Some e', t2, s2) \<Rightarrow> (Some e', t2, s2))
          else (Some UnboundLocalError, t1, s1))"

text \<open>Lines 181 to 201, the body of the outer \<^verbatim>\<open>try\<close>.\<close>

definition process_body :: "karton \<Rightarrow> task \<Rightarrow> state \<Rightarrow> exn option \<times> task \<times> state" where
  "process_body K t s =
     (let s1 = log INFO ''Received new task - %s'' [ArgStr (uid t)] s;
          s2 = declare_task_state (Some t) STARTED (identity K) s1
      in case run_pre_hooks (pre_hooks K) t s2 of
           (Some e, t1, s3) \<Rightarrow> (Some e, t1, s3)
         | (None, t1, s3) \<Rightarrow>
             (case run_process K t1 s3 of
                (Some e, t2, s4) \<Rightarrow> (Some e, t2, s4)
              | (None, t2, s4) \<Rightarrow> (None, t2, log INFO ''Task done - %s'' [ArgStr (uid t2)] s4)))"

text \<open>Lines 202 to 206, the \<^verbatim>\<open>except Exception\<close> clause of the outer \<^verbatim>\<open>try\<close>: an
  Exception is counted and logged and ends there; anything else goes on.\<close>

definition process_except :: "karton \<Rightarrow> exn option \<times> task \<times> state \<Rightarrow> exn option \<times> task \<times> state" where
  "process_except K r =
     (case r of
        (None, t, s) \<Rightarrow> (None, t, s)
      | (Some e, t, s) \<Rightarrow>
          if is_Exception e
          then (None, t,
                log EXCEPTION ''Failed to process task - %s'' [ArgStr (uid t)]
                  (rs_hincrby METRICS_ERRORED (identity K) 1 s))
          else (Some e, t, s))"

text \<open>Lines 207 to 212, the \<^verbatim>\<open>finally\<close> clause of the outer \<^verbatim>\<open>try\<close>.\<close>

definition process_finally :: "karton \<Rightarrow> task \<Rightarrow> state \<Rightarrow> state" where
  "process_finally K t s =
     (let s1 = rs_hincrby METRICS_CONSUMED (identity K) 1 s
      in if \<not> is_asynchronic t
         then declare_task_state (Some t) FINISHED (identity K) s1
         else s1)"

text \<open>Line 167: the record is read from the broker and deserialised; either step
  may raise.\<close>

definition fetch_task :: "task_api \<Rightarrow> string \<Rightarrow> state \<Rightarrow> exn + task" where
  "fetch_task A data s =
     (case rs_get (''karton.task:'' @ data) s of
        Inl e \<Rightarrow> Inl e
      | Inr raw \<Rightarrow> unserialize A raw)"

definition internal_process :: "karton \<Rightarrow> task_api \<Rightarrow> string \<Rightarrow> state \<Rightarrow> exn option \<times> state" where
  "internal_process K A data s =
     (case fetch_task A data s of
        Inl e \<Rightarrow> (Some e, s)
      | Inr t \<Rightarrow>
          (let s1 = set_task (Some t) (s\<lparr>current_task := Some t\<rparr>) in
           case find (matches_bind A t) (filters K) of
             None \<Rightarrow>
               (None,
                declare_task_state (Some t) FINISHED (identity K)
                  (log INFO ''Task rejected because binds are no longer valid.'' [] s1))
           | Some bind \<Rightarrow>
               (case process_except K (process_body K t s1) of
                  (r, t', s2) \<Rightarrow> (r, (process_finally K t' s2)\<lparr>current_task := Some t'\<rparr>))))"

text \<open>The keys of the blocking pop, lines 300 to 305, in the order of the call.\<close>

definition queue_name :: "task_api \<Rightarrow> TaskPriority \<Rightarrow> string \<Rightarrow> string" where
  "queue_name A p ident = ''karton.queue.'' @ format_priority A p @ '':'' @ ident"

definition loop_keys :: "karton \<Rightarrow> task_api \<Rightarrow> string list" where
  "loop_keys K A =
     [identity K,
      queue_name A HIGH (identity K),
      queue_name A NORMAL (identity K),
      queue_name A LOW (identity K)]"

text \<open>
  The \<^verbatim>\<open>while\<close> loop of lines 294 to 311. It runs for as long as the service is not
  shut down and its registration stands, so the model counts the wakes it may still
  make: with none left the result is \<open>OutOfFuel\<close>.
\<close>

datatype outcome = Returned state | Raised exn state | OutOfFuel state

fun loop_while :: "karton \<Rightarrow> task_api \<Rightarrow> nat \<Rightarrow> state \<Rightarrow> outcome" where
  "loop_while K A 0 s = (if shutdown s then Returned s else OutOfFuel s)"
| "loop_while K A (Suc n) s =
     (if shutdown s then Returned s
      else if rs_hget ''karton.binds'' (identity K) s \<noteq> Some (registration K)
      then Returned (log INFO ''Binds changed, shutting down.'' [] s)
      else (case rs_blpop (loop_keys K A) s of
              (None, s1) \<Rightarrow> loop_while K A n s1
            | (Some (queue, data), s1) \<Rightarrow>
                (case internal_process K A data s1 of
                   (Some e, s2) \<Rightarrow> Raised e s2
                 | (None, s2) \<Rightarrow> loop_while K A n s2)))"

fun log_bindings :: "bind list \<Rightarrow> state \<Rightarrow> state" where
  "log_bindings [] s = s"
| "log_bindings (task_filter # rest) s =
     log_bindings rest (log INFO ''Binding on: %s'' [ArgBind task_filter] s)"

definition loop :: "karton \<Rightarrow> task_api \<Rightarrow> nat \<Rightarrow> state \<Rightarrow> outcome" where
  "loop K A fuel s =
     (let s1 = log INFO ''Service %s started'' [ArgStr (identity K)] s;
          old_registration = rs_hget ''karton.binds'' (identity K) s1;
          s2 = rs_hset ''karton.binds'' (identity K) (registration K) s1;
          s3 = (if \<not> truthy old_registration
                then log INFO ''Service binds created.'' [] s2
                else if old_registration \<noteq> Some (registration K)
                then log INFO ''Binds changed, old service instances should exit soon.'' [] s2
                else s2);
          s4 = log_bindings (filters K) s3;
          s5 = emit (RsClientSetName (identity K)) s4
      in case loop_while K A fuel s5 of
           Raised e s6 \<Rightarrow>
             (if e = KeyboardInterrupt
              then Raised e (log INFO ''Hard shutting down!'' [] s6)
              else Raised e s6)
         | r \<Rightarrow> r)"

section \<open>Reading the trace\<close>

fun is_finished_decl :: "event \<Rightarrow> bool" where
  "is_finished_decl (DeclareTaskState _ FINISHED _) = True"
| "is_finished_decl _ = False"

fun is_process_call :: "event \<Rightarrow> bool" where
  "is_process_call (CallProcess _) = True"
| "is_process_call _ = False"

fun called_pre_hooks :: "event list \<Rightarrow> string option list" where
  "called_pre_hooks [] = []"
| "called_pre_hooks (CallPreHook name t # evs) = name # called_pre_hooks evs"
| "called_pre_hooks (ev # evs) = called_pre_hooks evs"

fun called_post_hooks :: "event list \<Rightarrow> (string option \<times> exn option) list" where
  "called_post_hooks [] = []"
| "called_post_hooks (CallPostHook name t exception # evs) = (name, exception) # called_post_hooks evs"
| "called_post_hooks (ev # evs) = called_post_hooks evs"

section \<open>What the hook pipeline is expected to do\<close>

text \<open>
  The claim about hooks in its own words, as functions to compare the code with: every
  registered hook is called in turn, with the task as the calls before it left it; a
  hook that raises is logged and the next one runs all the same. The result is the
  events of the run and the task at its end. \<open>ordinary\<close> holds of an outcome that
  is a return or an instance of Exception.
\<close>

definition hook_failure_log :: "string \<Rightarrow> string option \<Rightarrow> event" where
  "hook_failure_log kind name =
     (case name of
        None \<Rightarrow> Log EXCEPTION (kind @ '' failed'') []
      | Some n \<Rightarrow> if n \<noteq> [] then Log EXCEPTION (kind @ '' (%s) failed'') [ArgStr n]
                  else Log EXCEPTION (kind @ '' failed'') [])"

fun expected_pre_hooks :: "(string option \<times> callback) list \<Rightarrow> task \<Rightarrow> event list \<times> task" where
  "expected_pre_hooks [] t = ([], t)"
| "expected_pre_hooks ((name, callback) # hooks) t =
     (CallPreHook name t #
        (if fst (callback t) = None then [] else [hook_failure_log ''Pre-hook'' name]) @
        fst (expected_pre_hooks hooks (snd (callback t))),
      snd (expected_pre_hooks hooks (snd (callback t))))"

fun expected_post_hooks :: "(string option \<times> post_callback) list \<Rightarrow> exn option \<Rightarrow> task
    \<Rightarrow> event list \<times> task" where
  "expected_post_hooks [] exception t = ([], t)"
| "expected_post_hooks ((name, callback) # hooks) exception t =
     (CallPostHook name t exception #
        (if fst (callback t exception) = None then [] else [hook_failure_log ''Post-hook'' name]) @
        fst (expected_post_hooks hooks exception (snd (callback t exception))),
      snd (expected_post_hooks hooks exception (snd (callback t exception))))"


section \<open>Concrete inputs\<close>

text \<open>A small deployment on which the theorems below are instantiated: a codec that
  writes a task as its uid, binds that list required header values, and an empty
  broker.\<close>

definition demo_task :: "string \<Rightarrow> task" where
  "demo_task u =
     \<lparr>uid = u, headers = [(''type'', ''sample'')], payload = [], payload_persistent = [],
      priority = NORMAL, parent_uid = None, last_update = 0, asynchronic = False\<rparr>"

definition demo_api :: task_api where
  "demo_api =
     \<lparr>serialize = uid,
      unserialize = (\<lambda>raw. case raw of
                       None \<Rightarrow> Inl (Exception ''TypeError'')
                     | Some v \<Rightarrow> if v = ''malformed'' then Inl (Exception ''JSONDecodeError'')
                                else Inr (demo_task v)),
      matches_bind = (\<lambda>t b. list_all (\<lambda>(k, v). map_of (headers t) k = Some v) b),
      format_priority = (\<lambda>p. case p of HIGH \<Rightarrow> ''high'' | NORMAL \<Rightarrow> ''normal'' | LOW \<Rightarrow> ''low'')\<rparr>"

definition demo_state :: state where
  "demo_state =
     \<lparr>current_task = None, log_task = None, shutdown = False,
      rs_kv = (\<lambda>k. Inr None), rs_lists = (\<lambda>k. []), rs_hashes = (\<lambda>h f. None),
      rs_counters = (\<lambda>h f. 0), minio = [], trace = []\<rparr>"

definition demo_karton :: karton where
  "demo_karton =
     \<lparr>identity = ''demo'', minio_bucket = ''bucket'',
      filters = [[(''type'', ''config'')], [(''type'', ''sample'')]],
      pre_hooks = [(Some ''audit'', \<lambda>t. (Some (Exception ''pre''), t)), (None, \<lambda>t. (None, t))],
      post_hooks = [(Some ''report'', \<lambda>t e. (Some (Exception ''post''), t)),
                    (Some [], \<lambda>t e. (None, t))],
      process = (\<lambda>t. (Some (Exception ''handler''), t)),
      process_arg_num = 1,
      registration = ''reg''\<rparr>"

definition demo_state_t1 :: state where
  "demo_state_t1 = demo_state\<lparr>rs_kv := (rs_kv demo_state)(''karton.task:t1'' := Inr (Some ''t1''))\<rparr>"

definition demo_karton_config :: karton where
  "demo_karton_config = demo_karton\<lparr>filters := [[(''type'', ''config'')]]\<rparr>"

definition demo_parent :: task where
  "demo_parent =
     (demo_task ''parent'')\<lparr>priority := HIGH,
        payload_persistent := [(''a'', Plain ''from parent''), (''b'', Plain ''kept'')]\<rparr>"

definition demo_child :: task where
  "demo_child =
     (demo_task ''child'')\<lparr>priority := LOW,
        payload := [(''a'', Plain ''own''),
                    (''f'', Res (LocalResource ''f'' ''bytes'' None))]\<rparr>"

definition demo_state_queues :: state where
  "demo_state_queues =
     demo_state\<lparr>rs_lists := (rs_lists demo_state)
        (''demo'' := [''old''], queue_name demo_api HIGH ''demo'' := [''urgent''])\<rparr>"

definition demo_state_malformed :: state where
  "demo_state_malformed =
     demo_state\<lparr>rs_lists := (rs_lists demo_state)(queue_name demo_api HIGH ''demo'' := [''bad'', ''t1'']),
                 rs_kv := (rs_kv demo_state)(''karton.task:bad'' := Inr (Some ''malformed''),
                                             ''karton.task:t1'' := Inr (Some ''t1''))\<rparr>"

definition demo_failing_body :: "state \<Rightarrow> exn option \<times> state" where
  "demo_failing_body s = (Some (Exception ''boom''), s)"

definition demo_state_registered :: state where
  "demo_state_registered =
     demo_state_malformed\<lparr>rs_hashes := (rs_hashes demo_state_malformed)
        (''karton.binds'' := (rs_hashes demo_state_malformed ''karton.binds'')(''demo'' := Some ''reg''))\<rparr>"

section \<open>Producer: what send\_task writes, and in which order\<close>

lemma trace_upload_all:
  "trace (upload_all rs s) = trace s @ map Upload (filter is_local rs)"
  by (induction rs arbitrary: s) (auto simp: upload_def emit_def)


lemma rs_kv_upload_all: "rs_kv (upload_all rs s) = rs_kv s"
  by (induction rs arbitrary: s) (auto simp: upload_def emit_def)

lemma uid_complete_task: "uid (complete_task K now cur task) = uid task"
  by (simp add: complete_task_def Let_def set_task_parent_def merge_persistent_payload_def
      split: option.splits)

text \<open>
  Claim C5. The effects of \<open>send_task\<close> happen in this order: the serialised record
  is written under the task key; then every Local resource of the task is uploaded;
  only then is the task id pushed onto the queue, and the produced counter is
  incremented last.
\<close>

theorem send_task_effect_order:
  "trace (snd (snd (send_task K A now task s))) =
     trace s @
     [Log DEBUG ''Dispatched task %s'' [ArgStr (uid task)],
      RsSet (TASK_PREFIX @ uid task) (serialize A (complete_task K now (current_task s) task))] @
     map Upload (filter is_local
       (map snd (iterate_resources (complete_task K now (current_task s) task)))) @
     [RsRPush TASKS_QUEUE (uid task),
      RsHIncrBy METRICS_PRODUCED (identity K) 1]"
  by (simp add: send_task_def Let_def rs_hincrby_def rs_rpush_def rs_set_def log_def emit_def
      trace_upload_all uid_complete_task)

section \<open>Consumer: bind matching, rejection and the final declaration\<close>

lemma find_None_iff_no_match: "(find P xs = None) = (\<forall>x\<in>set xs. \<not> P x)"
  by (induction xs) auto

lemma internal_process_rejected:
  assumes "fetch_task A data s = Inr t" and "\<forall>b\<in>set (filters K). \<not> matches_bind A t b"
  shows "internal_process K A data s =
     (None, s\<lparr>current_task := Some t, log_task := Some t,
              trace := trace s @ [Log INFO ''Task rejected because binds are no longer valid.'' [],
                                  DeclareTaskState (Some t) FINISHED (identity K)]\<rparr>)"
proof -
  from assms(2) have "find (matches_bind A t) (filters K) = None"
    by (simp add: find_None_iff_no_match)
  with assms(1) show ?thesis
    by (simp add: internal_process_def set_task_def declare_task_state_def log_def emit_def)
qed

text \<open>
  Claim C10. When the fetched task matches none of the binds, \<open>internal_process\<close>
  returns normally and the whole of what it emits is the rejection log line and the
  FINISHED declaration: no STARTED declaration, no call of a pre-hook, of the handler
  or of a post-hook, and the counters of the broker (consumed and errored among them),
  its lists, keys and hashes and the object store are as they were.
\<close>

theorem internal_process_rejected_frame:
  assumes "fetch_task A data s = Inr t" and "\<forall>b\<in>set (filters K). \<not> matches_bind A t b"
  shows "case internal_process K A data s of
           (r, s') \<Rightarrow>
             r = None \<and>
             trace s' = trace s @ [Log INFO ''Task rejected because binds are no longer valid.'' [],
                                   DeclareTaskState (Some t) FINISHED (identity K)] \<and>
             rs_counters s' = rs_counters s \<and> rs_lists s' = rs_lists s \<and> rs_kv s' = rs_kv s \<and>
             rs_hashes s' = rs_hashes s \<and> minio s' = minio s \<and> shutdown s' = shutdown s \<and>
             current_task s' = Some t"
  using internal_process_rejected [OF assms] by simp

theorem internal_process_rejected_frame_witness:
  "fetch_task demo_api ''t1'' demo_state_t1 = Inr (demo_task ''t1'') \<and>
   \<not> (\<exists>b\<in>set (filters demo_karton_config). matches_bind demo_api (demo_task ''t1'') b) \<and>
   rs_counters (snd (internal_process demo_karton_config demo_api ''t1'' demo_state_t1)) = rs_counters demo_state_t1 \<and>
   trace (snd (internal_process demo_karton_config demo_api ''t1'' demo_state_t1)) =
     [Log INFO ''Task rejected because binds are no longer valid.'' [],
      DeclareTaskState (Some (demo_task ''t1'')) FINISHED ''demo'']"
proof -
  have h1: "fetch_task demo_api ''t1'' demo_state_t1 = Inr (demo_task ''t1'')"
    by (simp add: fetch_task_def rs_get_def demo_state_t1_def demo_state_def demo_api_def)
  have h2: "\<forall>b\<in>set (filters demo_karton_config). \<not> matches_bind demo_api (demo_task ''t1'') b"
    by (simp add: demo_karton_config_def demo_karton_def demo_api_def demo_task_def)
  show ?thesis
    using h1 h2 internal_process_rejected_frame [OF h1 h2]
    by (simp add: demo_karton_config_def demo_karton_def demo_state_t1_def demo_state_def split: prod.splits)
qed

lemma finished_pre_hook_failed:
  "filter is_finished_decl (trace (pre_hook_failed name s)) = filter is_finished_decl (trace s)"
  by (cases name) (simp_all add: log_def emit_def)

lemma finished_post_hook_failed:
  "filter is_finished_decl (trace (post_hook_failed name s)) = filter is_finished_decl (trace s)"
  by (cases name) (simp_all add: log_def emit_def)

lemma finished_run_pre_hooks:
  "filter is_finished_decl (trace (snd (snd (run_pre_hooks hs t s)))) = filter is_finished_decl (trace s)"
  by (induction hs t s rule: run_pre_hooks.induct)
     (auto simp: Let_def emit_def finished_pre_hook_failed split: prod.splits option.splits)

lemma finished_run_post_hooks:
  "filter is_finished_decl (trace (snd (snd (run_post_hooks hs x t s)))) = filter is_finished_decl (trace s)"
  by (induction hs x t s rule: run_post_hooks.induct)
     (auto simp: Let_def emit_def finished_post_hook_failed split: prod.splits option.splits)

lemma finished_run_process:
  "filter is_finished_decl (trace (snd (snd (run_process K t s)))) = filter is_finished_decl (trace s)"
proof -
  let ?s1 = "emit (CallProcess (process_args K t)) s"
  have a: "filter is_finished_decl (trace ?s1) = filter is_finished_decl (trace s)"
    by (simp add: emit_def)
  obtain r t1 where p: "process K t = (r, t1)"
    by (cases "process K t") auto
  have b: "filter is_finished_decl (trace (snd (snd (run_post_hooks (post_hooks K) x t1 ?s1)))) =
           filter is_finished_decl (trace s)" for x
    using finished_run_post_hooks [of "post_hooks K" x t1 ?s1] a by simp
  show ?thesis
  proof (cases r)
    case None
    with p b [of None] show ?thesis
      by (simp add: run_process_def Let_def)
  next
    case (Some e)
    show ?thesis
    proof (cases "is_Exception e")
      case True
      with p Some b [of "Some e"] show ?thesis
        by (auto simp: run_process_def Let_def split: prod.splits option.splits)
    next
      case False
      with p Some a show ?thesis
        by (simp add: run_process_def Let_def)
    qed
  qed
qed

lemma finished_process_body:
  "filter is_finished_decl (trace (snd (snd (process_body K t s)))) = filter is_finished_decl (trace s)"
proof -
  let ?s2 = "declare_task_state (Some t) STARTED (identity K) (log INFO ''Received new task - %s'' [ArgStr (uid t)] s)"
  have a: "filter is_finished_decl (trace ?s2) = filter is_finished_decl (trace s)"
    by (simp add: declare_task_state_def log_def emit_def)
  obtain r1 t1 s3 where p: "run_pre_hooks (pre_hooks K) t ?s2 = (r1, t1, s3)"
    by (cases "run_pre_hooks (pre_hooks K) t ?s2") auto
  have b: "filter is_finished_decl (trace s3) = filter is_finished_decl (trace s)"
    using finished_run_pre_hooks [of "pre_hooks K" t ?s2] p a by simp
  obtain r2 t2 s4 where q: "run_process K t1 s3 = (r2, t2, s4)"
    by (cases "run_process K t1 s3") auto
  have c: "filter is_finished_decl (trace s4) = filter is_finished_decl (trace s)"
    using finished_run_process [of K t1 s3] q b by simp
  show ?thesis
    using p q b c
    by (cases r1; cases r2) (simp_all add: process_body_def Let_def log_def emit_def)
qed

lemma finished_process_except:
  "filter is_finished_decl (trace (snd (snd (process_except K r)))) =
   filter is_finished_decl (trace (snd (snd r)))"
  by (auto simp: process_except_def rs_hincrby_def log_def emit_def split: prod.splits option.splits)

lemma finished_process_finally:
  "filter is_finished_decl (trace (process_finally K t s)) =
     filter is_finished_decl (trace s) @
     (if is_asynchronic t then [] else [DeclareTaskState (Some t) FINISHED (identity K)])"
  by (simp add: process_finally_def Let_def rs_hincrby_def declare_task_state_def emit_def)

lemma trace_process_finally:
  "trace (process_finally K t s) =
     trace s @ RsHIncrBy METRICS_CONSUMED (identity K) 1 #
     (if is_asynchronic t then [] else [DeclareTaskState (Some t) FINISHED (identity K)])"
  by (simp add: process_finally_def Let_def rs_hincrby_def declare_task_state_def emit_def)

lemma internal_process_matched:
  assumes "fetch_task A data s = Inr t" and "find (matches_bind A t) (filters K) = Some b"
  shows "internal_process K A data s =
     (case process_except K (process_body K t (set_task (Some t) (s\<lparr>current_task := Some t\<rparr>))) of
        (r, t', s2) \<Rightarrow> (r, (process_finally K t' s2)\<lparr>current_task := Some t'\<rparr>))"
  using assms by (simp add: internal_process_def)

text \<open>
  Claim C9. For a task that passed bind matching, whatever the hooks and the handler
  do: when the task, as they leave it, is not flagged asynchronous, the last thing
  \<open>internal_process\<close> emits is the FINISHED declaration for that task under the
  consumer's identity, and it is the only FINISHED declaration of the call; when the
  task is flagged asynchronous, the call declares no FINISHED at all and ends with
  the consumed counter.
\<close>

theorem internal_process_declares_finished_last:
  assumes "fetch_task A data s = Inr t" and "find (matches_bind A t) (filters K) = Some b"
  shows "case internal_process K A data s of
           (r, s') \<Rightarrow>
             (case current_task s' of
                None \<Rightarrow> False
              | Some t' \<Rightarrow>
                  if is_asynchronic t'
                  then filter is_finished_decl (trace s') = filter is_finished_decl (trace s) \<and>
                       last (trace s') = RsHIncrBy METRICS_CONSUMED (identity K) 1
                  else filter is_finished_decl (trace s') =
                         filter is_finished_decl (trace s) @
                         [DeclareTaskState (Some t') FINISHED (identity K)] \<and>
                       last (trace s') = DeclareTaskState (Some t') FINISHED (identity K))"
proof -
  let ?s1 = "set_task (Some t) (s\<lparr>current_task := Some t\<rparr>)"
  obtain r t' s2 where pe: "process_except K (process_body K t ?s1) = (r, t', s2)"
    by (cases "process_except K (process_body K t ?s1)") auto
  have "filter is_finished_decl (trace s2) =
        filter is_finished_decl (trace (snd (snd (process_body K t ?s1))))"
    using finished_process_except [of K "process_body K t ?s1"] pe by simp
  also have "\<dots> = filter is_finished_decl (trace ?s1)"
    by (rule finished_process_body)
  also have "\<dots> = filter is_finished_decl (trace s)"
    by (simp add: set_task_def)
  finally have f: "filter is_finished_decl (trace s2) = filter is_finished_decl (trace s)" .
  have ip: "internal_process K A data s = (r, (process_finally K t' s2)\<lparr>current_task := Some t'\<rparr>)"
    using internal_process_matched [OF assms] pe by simp
  show ?thesis
    using f by (simp add: ip finished_process_finally trace_process_finally)
qed

theorem internal_process_declares_finished_last_witness:
  "fetch_task demo_api ''t1'' demo_state_t1 = Inr (demo_task ''t1'') \<and>
   find (matches_bind demo_api (demo_task ''t1'')) (filters demo_karton) = Some [(''type'', ''sample'')] \<and>
   last (trace (snd (internal_process demo_karton demo_api ''t1'' demo_state_t1))) =
     DeclareTaskState (Some (demo_task ''t1'')) FINISHED ''demo''"
proof -
  have h1: "fetch_task demo_api ''t1'' demo_state_t1 = Inr (demo_task ''t1'')"
    by (simp add: fetch_task_def rs_get_def demo_state_t1_def demo_state_def demo_api_def)
  have h2: "find (matches_bind demo_api (demo_task ''t1'')) (filters demo_karton) = Some [(''type'', ''sample'')]"
    by (simp add: demo_karton_def demo_api_def demo_task_def)
  have c: "current_task (snd (internal_process demo_karton demo_api ''t1'' demo_state_t1)) = Some (demo_task ''t1'')"
    using h1 h2
    by (simp add: internal_process_def process_except_def process_body_def run_process_def
        Let_def demo_karton_def split: prod.splits)
  show ?thesis
    using h1 h2 c internal_process_declares_finished_last [OF h1 h2]
    by (simp add: is_asynchronic_def demo_task_def demo_karton_def split: prod.splits)
qed

text \<open>
  Claim C7. The handler is called only if some bind of the consumer's declared binds
  matches the fetched task; when no bind matches, \<open>internal_process\<close> returns
  normally, the handler has not been called, and the last thing emitted is the
  FINISHED declaration for the task.
\<close>

theorem internal_process_bind_gate:
  assumes "fetch_task A data s = Inr t"
  shows "(filter is_process_call (trace (snd (internal_process K A data s))) \<noteq>
            filter is_process_call (trace s)
          \<longrightarrow> (\<exists>b\<in>set (filters K). matches_bind A t b)) \<and>
         ((\<forall>b\<in>set (filters K). \<not> matches_bind A t b)
          \<longrightarrow> fst (internal_process K A data s) = None \<and>
              filter is_process_call (trace (snd (internal_process K A data s))) =
                filter is_process_call (trace s) \<and>
              last (trace (snd (internal_process K A data s))) =
                DeclareTaskState (Some t) FINISHED (identity K))"
proof -
  have r: "(\<forall>b\<in>set (filters K). \<not> matches_bind A t b)
          \<Longrightarrow> fst (internal_process K A data s) = None \<and>
              filter is_process_call (trace (snd (internal_process K A data s))) =
                filter is_process_call (trace s) \<and>
              last (trace (snd (internal_process K A data s))) =
                DeclareTaskState (Some t) FINISHED (identity K)"
    using internal_process_rejected [OF assms, of K] by simp
  then show ?thesis by blast
qed

theorem internal_process_bind_gate_witness:
  "fetch_task demo_api ''t1'' demo_state_t1 = Inr (demo_task ''t1'') \<and>
   filter is_process_call (trace (snd (internal_process demo_karton demo_api ''t1'' demo_state_t1))) \<noteq>
     filter is_process_call (trace demo_state_t1) \<and>
   (\<exists>b\<in>set (filters demo_karton). matches_bind demo_api (demo_task ''t1'') b) \<and>
   \<not> (\<exists>b\<in>set (filters demo_karton_config). matches_bind demo_api (demo_task ''t1'') b) \<and>
   last (trace (snd (internal_process demo_karton_config demo_api ''t1'' demo_state_t1))) =
     DeclareTaskState (Some (demo_task ''t1'')) FINISHED (identity demo_karton_config)"
proof -
  have h1: "fetch_task demo_api ''t1'' demo_state_t1 = Inr (demo_task ''t1'')"
    by (simp add: fetch_task_def rs_get_def demo_state_t1_def demo_state_def demo_api_def)
  have h2: "\<forall>b\<in>set (filters demo_karton_config). \<not> matches_bind demo_api (demo_task ''t1'') b"
    by (simp add: demo_karton_config_def demo_karton_def demo_api_def demo_task_def)
  have h3: "filter is_process_call (trace (snd (internal_process demo_karton demo_api ''t1'' demo_state_t1))) \<noteq>
     filter is_process_call (trace demo_state_t1)"
    using h1
    by (simp add: internal_process_def process_except_def process_body_def run_process_def
        process_finally_def process_args_def is_asynchronic_def rs_hincrby_def
        declare_task_state_def log_def emit_def set_task_def
        Let_def demo_karton_def demo_api_def demo_task_def demo_state_t1_def demo_state_def)
  show ?thesis
    using h1 h2 h3 internal_process_bind_gate [OF h1, of demo_karton]
      internal_process_bind_gate [OF h1, of demo_karton_config]
    by blast
qed

section \<open>Consumer: hooks and handler\<close>

text \<open>The expected run calls every registered hook once, in the order of
  registration, and hands every post-hook the same exception or None.\<close>

lemma called_pre_hooks_failure_log:
  "called_pre_hooks (hook_failure_log kind name # evs) = called_pre_hooks evs"
  by (cases name) (simp_all add: hook_failure_log_def)

lemma called_post_hooks_failure_log:
  "called_post_hooks (hook_failure_log kind name # evs) = called_post_hooks evs"
  by (cases name) (simp_all add: hook_failure_log_def)

lemma expected_pre_hooks_calls_every_hook:
  "called_pre_hooks (fst (expected_pre_hooks hs t)) = map fst hs"
  by (induction hs t rule: expected_pre_hooks.induct)
     (simp_all add: called_pre_hooks_failure_log)

lemma expected_post_hooks_calls_every_hook:
  "called_post_hooks (fst (expected_post_hooks hs x t)) = map (\<lambda>h. (fst h, x)) hs"
  by (induction hs x t rule: expected_post_hooks.induct)
     (simp_all add: called_post_hooks_failure_log)









section \<open>Producer: the destination queue\<close>



section \<open>Producer: what a task sent while another is handled inherits\<close>

lemma map_of_filter_key:
  "map_of (filter (\<lambda>(name, content). P name) xs) k = (if P k then map_of xs k else None)"
  by (induction xs) auto

lemma map_of_merge_persistent_payload:
  "map_of (payload (merge_persistent_payload t other)) name =
     (case map_of (payload t) name of
        Some v \<Rightarrow> Some v
      | None \<Rightarrow> map_of (payload_persistent other) name)"
  by (simp add: merge_persistent_payload_def map_of_append map_add_def map_of_filter_key
      split: option.splits)

lemma map_of_map_value:
  "map_of (map (\<lambda>(name, v). (name, f v)) xs) k = map_option f (map_of xs k)"
  by (induction xs) auto

text \<open>
  Claim C6. When \<open>send_task\<close> runs while a current task is set, the task it
  completes and writes to the broker has the current task as its parent and the
  current task's priority, whatever priority the caller gave it, and its payload is
  the caller's payload with the current task's persistent fields added under the names
  the caller did not use: on a name both have, the caller's value stands. (Values are
  as given, but for the bucket that lines 79 to 82 assign to a Local resource without
  one.)
\<close>

theorem send_task_inherits_from_current_task:
  assumes "current_task s = Some cur"
  shows "case send_task K A now task s of
           (ok, t, s') \<Rightarrow>
             parent_uid t = Some (uid cur) \<and>
             priority t = priority cur \<and>
             (\<forall>name. map_of (payload t) name =
                (case map_of (payload task) name of
                   Some v \<Rightarrow> Some (ensure_bucket (minio_bucket K) v)
                 | None \<Rightarrow> map_option (ensure_bucket (minio_bucket K))
                            (map_of (payload_persistent cur) name))) \<and>
             rs_kv s' (TASK_PREFIX @ uid task) = Inr (Some (serialize A t))"
proof -
  define t where "t = complete_task K now (Some cur) task"
  have p: "parent_uid t = Some (uid cur)"
    by (simp add: t_def complete_task_def Let_def set_task_parent_def merge_persistent_payload_def)
  have q: "priority t = priority cur"
    by (simp add: t_def complete_task_def Let_def)
  have m: "map_of (payload t) name =
                (case map_of (payload task) name of
                   Some v \<Rightarrow> Some (ensure_bucket (minio_bucket K) v)
                 | None \<Rightarrow> map_option (ensure_bucket (minio_bucket K))
                            (map_of (payload_persistent cur) name))" for name
  proof -
    have "payload t = map (\<lambda>(name, v). (name, ensure_bucket (minio_bucket K) v))
                        (payload (merge_persistent_payload (set_task_parent task cur) cur))"
      by (simp add: t_def complete_task_def Let_def)
    then show ?thesis
      by (simp add: map_of_map_value map_of_merge_persistent_payload set_task_parent_def
          split: option.splits)
  qed
  have u: "uid t = uid task"
    by (simp add: t_def uid_complete_task)
  have k: "rs_kv (snd (snd (send_task K A now task s))) (TASK_PREFIX @ uid task) = Inr (Some (serialize A t))"
    using assms
    by (simp add: send_task_def Let_def rs_hincrby_def rs_rpush_def rs_set_def log_def emit_def
        rs_kv_upload_all t_def [symmetric] u)
  have f: "fst (snd (send_task K A now task s)) = t"
    using assms by (simp add: send_task_def Let_def log_def emit_def t_def)
  show ?thesis
    using p q m k f by (simp add: split_def)
qed

theorem send_task_inherits_from_current_task_witness:
  "current_task (demo_state\<lparr>current_task := Some demo_parent\<rparr>) = Some demo_parent \<and>
   parent_uid (fst (snd (send_task demo_karton demo_api 7 demo_child
        (demo_state\<lparr>current_task := Some demo_parent\<rparr>)))) = Some ''parent'' \<and>
   priority (fst (snd (send_task demo_karton demo_api 7 demo_child
        (demo_state\<lparr>current_task := Some demo_parent\<rparr>)))) = HIGH \<and>
   priority demo_child = LOW \<and>
   payload (fst (snd (send_task demo_karton demo_api 7 demo_child
        (demo_state\<lparr>current_task := Some demo_parent\<rparr>)))) =
     [(''a'', Plain ''own''), (''f'', Res (LocalResource ''f'' ''bytes'' (Some ''bucket''))),
      (''b'', Plain ''kept'')]"
proof -
  have h: "current_task (demo_state\<lparr>current_task := Some demo_parent\<rparr>) = Some demo_parent"
    by simp
  have pl: "payload (fst (snd (send_task demo_karton demo_api 7 demo_child
        (demo_state\<lparr>current_task := Some demo_parent\<rparr>)))) =
     [(''a'', Plain ''own''), (''f'', Res (LocalResource ''f'' ''bytes'' (Some ''bucket''))),
      (''b'', Plain ''kept'')]"
    by (simp add: send_task_def Let_def log_def emit_def complete_task_def set_task_parent_def
        merge_persistent_payload_def demo_child_def demo_parent_def demo_task_def demo_karton_def)
  show ?thesis
    using h pl send_task_inherits_from_current_task
        [OF h, where K = demo_karton and A = demo_api and now = 7 and task = demo_child]
    by (simp add: split_def demo_parent_def demo_child_def demo_task_def)
qed

section \<open>Producer: continue\_asynchronic\<close>

lemma continue_asynchronic_returns:
  assumes "body (set_task (Some task) (s\<lparr>current_task := Some task\<rparr>)) = (None, s2)"
  shows "continue_asynchronic K task finish body s =
     (None, s2\<lparr>current_task := current_task s, log_task := current_task s,
               trace := trace s2 @
                 (if finish then [DeclareTaskState (current_task s2) FINISHED (identity K)] else [])\<rparr>)"
  using assms
  by (simp add: continue_asynchronic_def Let_def declare_task_state_def emit_def set_task_def)

lemma continue_asynchronic_raises:
  assumes "body (set_task (Some task) (s\<lparr>current_task := Some task\<rparr>)) = (Some e, s2)"
  shows "continue_asynchronic K task finish body s = (Some e, s2)"
  using assms by (simp add: continue_asynchronic_def Let_def)

text \<open>
  Claim C1 at a unit of work that raises: the exception goes on to the caller, the
  current task and the log context are still the continued task and not the context
  saved on entry, and no FINISHED declaration has been emitted.
\<close>

theorem continue_asynchronic_raise_leaves_context:
  "fst (continue_asynchronic demo_karton demo_parent True demo_failing_body demo_state) =
     Some (Exception ''boom'') \<and>
   current_task demo_state = None \<and>
   current_task (snd (continue_asynchronic demo_karton demo_parent True demo_failing_body demo_state)) =
     Some demo_parent \<and>
   log_task (snd (continue_asynchronic demo_karton demo_parent True demo_failing_body demo_state)) =
     Some demo_parent \<and>
   trace (snd (continue_asynchronic demo_karton demo_parent True demo_failing_body demo_state)) = []"
  by (simp add: continue_asynchronic_def Let_def demo_failing_body_def set_task_def demo_state_def)

section \<open>Consumer: the loop\<close>

text \<open>
  Claim C2, as amended. On every wake the blocking pop checks the queues in the order
  of lines 300 to 305: the legacy queue named by the identity first, then HIGH, then
  NORMAL, then LOW; it pops the head of the first one that is not empty and times out
  when all are empty.
\<close>

theorem rs_blpop_loop_keys_order:
  "rs_blpop (loop_keys K A) s =
     (if rs_lists s (identity K) \<noteq> []
      then (Some (identity K, hd (rs_lists s (identity K))),
            s\<lparr>rs_lists := (rs_lists s)(identity K := tl (rs_lists s (identity K)))\<rparr>)
      else if rs_lists s (queue_name A HIGH (identity K)) \<noteq> []
      then (Some (queue_name A HIGH (identity K), hd (rs_lists s (queue_name A HIGH (identity K)))),
            s\<lparr>rs_lists := (rs_lists s)(queue_name A HIGH (identity K) :=
                              tl (rs_lists s (queue_name A HIGH (identity K))))\<rparr>)
      else if rs_lists s (queue_name A NORMAL (identity K)) \<noteq> []
      then (Some (queue_name A NORMAL (identity K), hd (rs_lists s (queue_name A NORMAL (identity K)))),
            s\<lparr>rs_lists := (rs_lists s)(queue_name A NORMAL (identity K) :=
                              tl (rs_lists s (queue_name A NORMAL (identity K))))\<rparr>)
      else if rs_lists s (queue_name A LOW (identity K)) \<noteq> []
      then (Some (queue_name A LOW (identity K), hd (rs_lists s (queue_name A LOW (identity K)))),
            s\<lparr>rs_lists := (rs_lists s)(queue_name A LOW (identity K) :=
                              tl (rs_lists s (queue_name A LOW (identity K))))\<rparr>)
      else (None, s))"
  by (simp add: rs_blpop_def loop_keys_def split: list.splits)

text \<open>
  Claim C2 as stated fails: with an item on the legacy queue and one on the HIGH
  queue, the wake pops the legacy item and leaves the HIGH queue as it was.
\<close>

theorem loop_keys_priority_order_counterexample:
  "rs_lists demo_state_queues (queue_name demo_api HIGH (identity demo_karton)) = [''urgent''] \<and>
   rs_lists demo_state_queues (identity demo_karton) = [''old''] \<and>
   fst (rs_blpop (loop_keys demo_karton demo_api) demo_state_queues) = Some (''demo'', ''old'') \<and>
   rs_lists (snd (rs_blpop (loop_keys demo_karton demo_api) demo_state_queues))
     (queue_name demo_api HIGH (identity demo_karton)) = [''urgent'']"
  by (simp add: rs_blpop_def loop_keys_def demo_state_queues_def demo_state_def demo_karton_def
      queue_name_def demo_api_def)

lemma internal_process_fetch_failure:
  assumes "fetch_task A data s = Inl e"
  shows "internal_process K A data s = (Some e, s)"
  using assms by (simp add: internal_process_def)

text \<open>
  Claim C3, as amended. When reading or deserialising the record of a popped task id
  raises, \<open>internal_process\<close> lets the exception out with nothing declared and
  nothing counted, and the loop ends with that exception at that wake, however many
  wakes it could still have made.
\<close>

theorem loop_while_fetch_failure_propagates:
  assumes "\<not> shutdown s"
    and "rs_hget ''karton.binds'' (identity K) s = Some (registration K)"
    and "rs_blpop (loop_keys K A) s = (Some (queue, data), s1)"
    and "fetch_task A data s1 = Inl e"
  shows "internal_process K A data s1 = (Some e, s1) \<and> loop_while K A (Suc n) s = Raised e s1"
  using assms by (simp add: internal_process_fetch_failure)

theorem loop_while_fetch_failure_propagates_witness:
  "\<not> shutdown demo_state_registered \<and>
   rs_hget ''karton.binds'' (identity demo_karton) demo_state_registered = Some (registration demo_karton) \<and>
   fst (rs_blpop (loop_keys demo_karton demo_api) demo_state_registered) =
     Some (''karton.queue.high:demo'', ''bad'') \<and>
   fetch_task demo_api ''bad'' (snd (rs_blpop (loop_keys demo_karton demo_api) demo_state_registered)) =
     Inl (Exception ''JSONDecodeError'') \<and>
   loop_while demo_karton demo_api (Suc 4) demo_state_registered =
     Raised (Exception ''JSONDecodeError'')
       (snd (rs_blpop (loop_keys demo_karton demo_api) demo_state_registered))"
proof -
  have h1: "\<not> shutdown demo_state_registered"
    by (simp add: demo_state_registered_def demo_state_malformed_def demo_state_def)
  have h2: "rs_hget ''karton.binds'' (identity demo_karton) demo_state_registered =
      Some (registration demo_karton)"
    by (simp add: rs_hget_def demo_state_registered_def demo_karton_def)
  have f: "fst (rs_blpop (loop_keys demo_karton demo_api) demo_state_registered) =
      Some (''karton.queue.high:demo'', ''bad'')"
    by (simp add: rs_blpop_def loop_keys_def demo_state_registered_def demo_state_malformed_def
        demo_state_def demo_karton_def queue_name_def demo_api_def)
  have h3: "rs_blpop (loop_keys demo_karton demo_api) demo_state_registered =
      (Some (''karton.queue.high:demo'', ''bad''),
       snd (rs_blpop (loop_keys demo_karton demo_api) demo_state_registered))"
    using f by (simp add: prod_eq_iff)
  have h4: "fetch_task demo_api ''bad''
      (snd (rs_blpop (loop_keys demo_karton demo_api) demo_state_registered)) =
      Inl (Exception ''JSONDecodeError'')"
    by (simp add: fetch_task_def rs_get_def rs_blpop_def loop_keys_def demo_state_registered_def
        demo_state_malformed_def demo_state_def demo_karton_def queue_name_def demo_api_def)
  show ?thesis
    using h1 h2 f h4 loop_while_fetch_failure_propagates [OF h1 h2 h3 h4, of 4]
    by simp
qed

text \<open>
  Claim C3 as stated fails: a malformed record makes \<open>loop\<close> end with the
  deserialiser's exception after one wake out of five, with the next task still on
  its queue and the handler never called.
\<close>

theorem loop_fetch_failure_counterexample:
  "(case loop demo_karton demo_api 5 demo_state_malformed of
      Raised e s' \<Rightarrow>
        e = Exception ''JSONDecodeError'' \<and>
        rs_lists s' (queue_name demo_api HIGH ''demo'') = [''t1''] \<and>
        filter is_process_call (trace s') = []
    | Returned s' \<Rightarrow> False
    | OutOfFuel s' \<Rightarrow> False)"
  by (simp add: loop_def Let_def rs_hget_def rs_hset_def log_def emit_def rs_blpop_def loop_keys_def
      internal_process_def fetch_task_def rs_get_def eval_nat_numeral KeyboardInterrupt_def
      demo_state_malformed_def demo_state_def demo_karton_def queue_name_def demo_api_def)

end
